theory Spec2Isabelle
  imports Main "HOL-Library.Multiset"
begin

section \<open>The Hero service of \<^verbatim>\<open>src/main.py\<close>\<close>

text \<open>
  The program is three request handlers over one table. Each handler receives its
  parsed arguments and a session, performs one storage operation and returns a record,
  a list of records, or raises. The handlers are embedded as functions from their
  arguments and the session to a pair: the result (\<open>Inl\<close> the exception raised,
  \<open>Inr\<close> the value returned) and the session as the handler leaves it.

  The session, the query builder and the table belong to the libraries the program
  imports, not to the program. They are embedded with the behaviour the handlers rely on.
  The table \<^verbatim>\<open>hero\<close> has the integer primary key \<^verbatim>\<open>id\<close>. The arguments of a handler
  are Python's unbounded integers, a stored integer is a signed 64-bit value: a
  statement with an integer parameter outside that range raises \<^verbatim>\<open>OverflowError\<close>
  before it reaches the table. The storage engine fills in the key of an inserted row
  that leaves it empty (1 for an empty table, one more than the largest key in use while
  that is below the largest 64-bit value, some unused positive key drawn at random after
  that) and takes a given key as it is, refusing one already in use. A full scan yields
  the rows by ascending key.
\<close>

subsection \<open>Data model\<close>

text \<open>The class \<^verbatim>\<open>Hero\<close>: \<^verbatim>\<open>id: Optional[int]\<close>, \<^verbatim>\<open>name: str\<close>, \<^verbatim>\<open>age: Optional[int]\<close>.\<close>

record Hero =
  Hero_id :: "int option"
  Hero_name :: string
  Hero_age :: "int option"

text \<open>A stored row of the table \<^verbatim>\<open>hero\<close>: the primary key is never null.\<close>

record Hero_row =
  row_id :: int
  row_name :: string
  row_age :: "int option"

type_synonym database = "Hero_row list"

datatype error =
    HTTPException int string
  | IntegrityError
  | InvalidRequestError
  | OverflowError
  | OperationalError

text \<open>
  A session: the table of the database it is bound to, and the objects added to it that
  are not flushed yet (\<^verbatim>\<open>session.new\<close>).
\<close>

record Session =
  table :: database
  new :: "Hero list"

text \<open>
  \<^verbatim>\<open>with Session(engine) as session: yield session\<close>: the session handed to a handler is a
  fresh one on the current database. Only the acquisition is embedded.
\<close>

definition get_session :: "database \<Rightarrow> Session" where
  "get_session engine = \<lparr>table = engine, new = []\<rparr>"

subsection \<open>Storage operations\<close>

text \<open>
  The largest key of a table, and the integers a statement can carry: the signed 64-bit
  range. An absent value is bound as \<^verbatim>\<open>NULL\<close>.
\<close>

definition max_rowid :: int where
  "max_rowid = 9223372036854775807"

definition int64 :: "int \<Rightarrow> bool" where
  "int64 i = (- max_rowid - 1 \<le> i \<and> i \<le> max_rowid)"

definition int64_opt :: "int option \<Rightarrow> bool" where
  "int64_opt x = (case x of None \<Rightarrow> True | Some i \<Rightarrow> int64 i)"

definition load_hero :: "Hero_row \<Rightarrow> Hero" where
  "load_hero r = \<lparr>Hero_id = Some (row_id r), Hero_name = row_name r, Hero_age = row_age r\<rparr>"

text \<open>
  The key the engine gives a row inserted without one. Once the largest key in use is
  the largest 64-bit value, the engine draws candidate keys at random; the draw is not
  a function of the program, so the key drawn is left unspecified here: some positive
  64-bit key that no row has, when there is one.
\<close>

definition random_rowid :: "database \<Rightarrow> int" where
  "random_rowid t = (SOME i. 1 \<le> i \<and> i \<le> max_rowid \<and> i \<notin> set (map row_id t))"

definition next_rowid :: "database \<Rightarrow> int" where
  "next_rowid t =
     (if t = [] then 1
      else if Max (set (map row_id t)) < max_rowid then Max (set (map row_id t)) + 1
      else random_rowid t)"

text \<open>
  One \<^verbatim>\<open>INSERT\<close>. The id and the age of the object are parameters of the statement, so
  a value outside 64 bits raises before anything is stored. An object without id
  receives the key the engine chooses: the engine gives up when it finds no free key,
  which cannot happen while the keys in use are below the largest one
  (\<open>next_rowid_free\<close> below). An object with an id keeps it, and a key already stored
  violates the primary key. The object comes back as the flush leaves it, with its id
  set.
\<close>

definition insert_row :: "Hero \<Rightarrow> database \<Rightarrow> error + (Hero \<times> database)" where
  "insert_row hero t =
     (if int64_opt (Hero_id hero) \<and> int64_opt (Hero_age hero) then
        (case Hero_id hero of
           None \<Rightarrow>
             (let i = next_rowid t in
              if int64 i \<and> i \<notin> set (map row_id t) then
                Inr (hero\<lparr>Hero_id := Some i\<rparr>,
                     insort_key row_id
                       \<lparr>row_id = i, row_name = Hero_name hero, row_age = Hero_age hero\<rparr> t)
              else Inl OperationalError)
         | Some i \<Rightarrow>
             (if i \<in> set (map row_id t) then Inl IntegrityError
              else Inr (hero,
                     insort_key row_id
                       \<lparr>row_id = i, row_name = Hero_name hero, row_age = Hero_age hero\<rparr> t)))
      else Inl OverflowError)"

fun flush :: "Hero list \<Rightarrow> database \<Rightarrow> error + (Hero list \<times> database)" where
  "flush [] t = Inr ([], t)"
| "flush (h # hs) t =
     (case insert_row h t of
        Inl e \<Rightarrow> Inl e
      | Inr (h', t') \<Rightarrow>
          (case flush hs t' of
             Inl e \<Rightarrow> Inl e
           | Inr (hs', t'') \<Rightarrow> Inr (h' # hs', t'')))"

text \<open>\<^verbatim>\<open>session.add(hero)\<close>: the object becomes pending.\<close>

definition session_add :: "Session \<Rightarrow> Hero \<Rightarrow> Session" where
  "session_add session hero = session\<lparr>new := new session @ [hero]\<rparr>"

text \<open>
  \<^verbatim>\<open>session.commit()\<close>: the pending objects are inserted in the order they were added.
  Python mutates the objects in place; here the commit returns them, in the same order.
  A failed insert raises and rolls the transaction back: the table is as before.
\<close>

definition session_commit :: "Session \<Rightarrow> (error + Hero list) \<times> Session" where
  "session_commit session =
     (case flush (new session) (table session) of
        Inl e \<Rightarrow> (Inl e, session\<lparr>new := []\<rparr>)
      | Inr (objs, t) \<Rightarrow> (Inr objs, \<lparr>table = t, new = []\<rparr>))"

text \<open>
  \<^verbatim>\<open>session.refresh(hero)\<close>: the attributes are read again from the row with the
  object's primary key; without such a row the refresh raises. The key is a parameter
  of the \<^verbatim>\<open>SELECT\<close>.
\<close>

definition session_refresh :: "Session \<Rightarrow> Hero \<Rightarrow> error + Hero" where
  "session_refresh session hero =
     (case Hero_id hero of
        None \<Rightarrow> Inl InvalidRequestError
      | Some i \<Rightarrow>
          (if int64 i then
             (case find (\<lambda>r. row_id r = i) (table session) of
                None \<Rightarrow> Inl InvalidRequestError
              | Some r \<Rightarrow> Inr (load_hero r))
           else Inl OverflowError))"

text \<open>
  \<^verbatim>\<open>session.get(Hero, hero_id)\<close>: the row with that primary key, or \<^verbatim>\<open>None\<close>. The key is
  a parameter of the \<^verbatim>\<open>SELECT\<close>: outside 64 bits the call raises.
\<close>

definition session_get :: "Session \<Rightarrow> int \<Rightarrow> error + Hero option" where
  "session_get session hero_id =
     (if int64 hero_id then
        Inr (map_option load_hero (find (\<lambda>r. row_id r = hero_id) (table session)))
      else Inl OverflowError)"

text \<open>
  The statement built by \<^verbatim>\<open>select(Hero)\<close> and \<^verbatim>\<open>.where(...)\<close>: the list of its
  conditions, all of which a selected row satisfies. \<^verbatim>\<open>Hero.age == age\<close> is SQL equality:
  a row whose age is null does not satisfy it. The age compared with is a parameter of
  the statement.
\<close>

datatype condition = Name_eq string | Age_eq int

type_synonym select_stmt = "condition list"

definition select_Hero :: select_stmt where
  "select_Hero = []"

definition where_clause :: "select_stmt \<Rightarrow> condition \<Rightarrow> select_stmt" where
  "where_clause query c = query @ [c]"

fun holds :: "condition \<Rightarrow> Hero_row \<Rightarrow> bool" where
  "holds (Name_eq n) r = (row_name r = n)"
| "holds (Age_eq a) r = (row_age r = Some a)"

fun bindable :: "condition \<Rightarrow> bool" where
  "bindable (Name_eq n) = True"
| "bindable (Age_eq a) = int64 a"

text \<open>\<^verbatim>\<open>session.exec(query).all()\<close>.\<close>

definition session_exec_all :: "Session \<Rightarrow> select_stmt \<Rightarrow> error + Hero list" where
  "session_exec_all session query =
     (if list_all bindable query then
        Inr (map load_hero (filter (\<lambda>r. list_all (\<lambda>c. holds c r) query) (table session)))
      else Inl OverflowError)"

subsection \<open>The handlers\<close>

text \<open>
  \<^verbatim>\<open>create_hero\<close>: add, commit, refresh, return. The object \<^verbatim>\<open>hero\<close> is the one added
  last, so after the commit it is the last of the flushed objects.
\<close>

definition create_hero :: "Hero \<Rightarrow> Session \<Rightarrow> (error + Hero) \<times> Session" where
  "create_hero hero session =
     (let session = session_add session hero in
      case session_commit session of
        (Inl e, session) \<Rightarrow> (Inl e, session)
      | (Inr objs, session) \<Rightarrow>
          (let hero = last objs in
           case session_refresh session hero of
             Inl e \<Rightarrow> (Inl e, session)
           | Inr hero \<Rightarrow> (Inr hero, session)))"

text \<open>
  \<^verbatim>\<open>read_heroes\<close>: \<^verbatim>\<open>if name:\<close> and \<^verbatim>\<open>if age:\<close> are Python truth tests. \<^verbatim>\<open>None\<close>, the
  empty string and the integer 0 are false.
\<close>

definition read_heroes ::
  "string option \<Rightarrow> int option \<Rightarrow> Session \<Rightarrow> (error + Hero list) \<times> Session" where
  "read_heroes name age session =
     (let query = select_Hero;
          query = (case name of
                     None \<Rightarrow> query
                   | Some n \<Rightarrow> if n = [] then query else where_clause query (Name_eq n));
          query = (case age of
                     None \<Rightarrow> query
                   | Some a \<Rightarrow> if a = 0 then query else where_clause query (Age_eq a))
      in case session_exec_all session query of
           Inl e \<Rightarrow> (Inl e, session)
         | Inr heroes \<Rightarrow> (Inr heroes, session))"

text \<open>\<^verbatim>\<open>read_hero\<close>: an object is true, \<^verbatim>\<open>None\<close> is false.\<close>

definition read_hero :: "int \<Rightarrow> Session \<Rightarrow> (error + Hero) \<times> Session" where
  "read_hero hero_id session =
     (case session_get session hero_id of
        Inl e \<Rightarrow> (Inl e, session)
      | Inr None \<Rightarrow> (Inl (HTTPException 404 ''Hero not found''), session)
      | Inr (Some hero) \<Rightarrow> (Inr hero, session))"

subsection \<open>A run of create requests\<close>


section \<open>Properties\<close>

subsection \<open>Keys of the table\<close>

lemma max_rowid_pos: "1 \<le> max_rowid"
  by (simp add: max_rowid_def)







lemma find_insort_fresh:
  "i \<notin> row_id ` set t \<Longrightarrow> row_id r = i \<Longrightarrow>
   find (\<lambda>x. row_id x = i) (insort_key row_id r t) = Some r"
  by (induction t) auto

subsection \<open>The objects a commit returns\<close>

text \<open>
  A successful flush returns as many objects as were pending, so after \<open>session_add\<close>
  the list a commit returns is never empty, and \<open>last\<close> in \<open>create_hero\<close> is the
  object just added.
\<close>

lemma flush_length: "flush hs t = Inr (hs', t') \<Longrightarrow> length hs' = length hs"
proof (induction hs arbitrary: t hs' t')
  case Nil
  then show ?case by simp
next
  case (Cons h hs)
  then show ?case
    by (auto split: sum.splits prod.splits)
qed

lemma session_commit_objs:
  "session_commit (session_add session hero) = (Inr objs, s) \<Longrightarrow> objs \<noteq> []"
  by (auto simp: session_commit_def session_add_def split: sum.splits prod.splits
      dest: flush_length)

subsection \<open>What \<open>create_hero\<close> computes on a fresh session\<close>

lemma table_get_session: "table (get_session db) = db"
  by (simp add: get_session_def)

lemma Hero_update_id:
  "hero\<lparr>Hero_id := x\<rparr> = \<lparr>Hero_id = x, Hero_name = Hero_name hero, Hero_age = Hero_age hero\<rparr>"
  by (cases hero) simp

lemma create_hero_insert_row:
  "create_hero hero (get_session db) =
     (case insert_row hero db of
        Inl e \<Rightarrow> (Inl e, get_session db)
      | Inr (h, t) \<Rightarrow>
          (case session_refresh (get_session t) h of
             Inl e \<Rightarrow> (Inl e, get_session t)
           | Inr h' \<Rightarrow> (Inr h', get_session t)))"
  by (simp add: create_hero_def get_session_def session_add_def session_commit_def
      split: sum.splits prod.splits)

lemma session_refresh_inserted:
  assumes "int64 i" and "i \<notin> row_id ` set db"
  shows "session_refresh
           (get_session (insort_key row_id \<lparr>row_id = i, row_name = n, row_age = a\<rparr> db))
           \<lparr>Hero_id = Some i, Hero_name = n, Hero_age = a\<rparr>
         = Inr \<lparr>Hero_id = Some i, Hero_name = n, Hero_age = a\<rparr>"
proof -
  have "find (\<lambda>x. row_id x = i)
          (insort_key row_id \<lparr>row_id = i, row_name = n, row_age = a\<rparr> db)
        = Some \<lparr>row_id = i, row_name = n, row_age = a\<rparr>"
    by (rule find_insort_fresh [OF assms(2)]) simp
  with assms(1) show ?thesis
    by (simp add: session_refresh_def get_session_def load_hero_def)
qed

lemma insert_row_Inr:
  assumes "insert_row hero t = Inr (h, t')"
  obtains i where "int64 i" and "i \<notin> row_id ` set t"
    and "h = \<lparr>Hero_id = Some i, Hero_name = Hero_name hero, Hero_age = Hero_age hero\<rparr>"
    and "t' = insort_key row_id
                \<lparr>row_id = i, row_name = Hero_name hero, row_age = Hero_age hero\<rparr> t"
    and "Hero_id hero = None \<and> i = next_rowid t \<or> Hero_id hero = Some i"
    and "int64_opt (Hero_age hero)"
proof (cases "Hero_id hero")
  case None
  with assms have "int64_opt (Hero_age hero)" and "int64 (next_rowid t)"
    and "next_rowid t \<notin> row_id ` set t"
    and "h = hero\<lparr>Hero_id := Some (next_rowid t)\<rparr>"
    and "t' = insort_key row_id
         \<lparr>row_id = next_rowid t, row_name = Hero_name hero, row_age = Hero_age hero\<rparr> t"
    by (simp_all add: insert_row_def Let_def split: if_splits)
  with None that [of "next_rowid t"] show thesis
    by (simp add: Hero_update_id)
next
  case (Some i)
  with assms have "int64_opt (Hero_age hero)" and "int64 i"
    and "i \<notin> row_id ` set t" and "h = hero"
    and "t' = insort_key row_id
         \<lparr>row_id = i, row_name = Hero_name hero, row_age = Hero_age hero\<rparr> t"
    by (auto simp: insert_row_def int64_opt_def split: if_splits)
  moreover from Some
  have "hero = \<lparr>Hero_id = Some i, Hero_name = Hero_name hero, Hero_age = Hero_age hero\<rparr>"
    by simp
  ultimately show thesis using Some that [of i] by simp
qed

lemma create_hero_success:
  assumes "create_hero hero (get_session db) = (Inr h, s)"
  obtains i where "int64 i" and "i \<notin> row_id ` set db"
    and "h = \<lparr>Hero_id = Some i, Hero_name = Hero_name hero, Hero_age = Hero_age hero\<rparr>"
    and "s = get_session (insort_key row_id
              \<lparr>row_id = i, row_name = Hero_name hero, row_age = Hero_age hero\<rparr> db)"
    and "Hero_id hero = None \<and> i = next_rowid db \<or> Hero_id hero = Some i"
    and "int64_opt (Hero_age hero)"
proof (cases "insert_row hero db")
  case (Inl e)
  with assms show thesis by (simp add: create_hero_insert_row)
next
  case (Inr p)
  obtain h0 t where p: "p = (h0, t)" by (cases p)
  with Inr have ins: "insert_row hero db = Inr (h0, t)" by simp
  from ins obtain i where i: "int64 i" and fresh: "i \<notin> row_id ` set db"
    and h0: "h0 = \<lparr>Hero_id = Some i, Hero_name = Hero_name hero, Hero_age = Hero_age hero\<rparr>"
    and t: "t = insort_key row_id
                \<lparr>row_id = i, row_name = Hero_name hero, row_age = Hero_age hero\<rparr> db"
    and origin: "Hero_id hero = None \<and> i = next_rowid db \<or> Hero_id hero = Some i"
    and age: "int64_opt (Hero_age hero)"
    by (rule insert_row_Inr)
  have "session_refresh (get_session t) h0 = Inr h0"
    unfolding h0 t by (rule session_refresh_inserted [OF i fresh])
  with ins have "create_hero hero (get_session db) = (Inr h0, get_session t)"
    by (simp add: create_hero_insert_row)
  with assms have "h = h0" and "s = get_session t" by simp_all
  with h0 t show thesis using that [OF i fresh _ _ origin age] by simp
qed






lemma read_hero_inserted:
  assumes "int64 i" and "i \<notin> row_id ` set db"
  shows "read_hero i (get_session (insort_key row_id \<lparr>row_id = i, row_name = n, row_age = a\<rparr> db))
    = (Inr \<lparr>Hero_id = Some i, Hero_name = n, Hero_age = a\<rparr>,
       get_session (insort_key row_id \<lparr>row_id = i, row_name = n, row_age = a\<rparr> db))"
proof -
  have "find (\<lambda>x. row_id x = i)
          (insort_key row_id \<lparr>row_id = i, row_name = n, row_age = a\<rparr> db)
        = Some \<lparr>row_id = i, row_name = n, row_age = a\<rparr>"
    by (rule find_insort_fresh [OF assms(2)]) simp
  with assms(1) show ?thesis
    by (simp add: read_hero_def session_get_def get_session_def load_hero_def)
qed



subsection \<open>Listing\<close>

lemma read_heroes_all:
  "read_heroes None None session = (Inr (map load_hero (table session)), session)"
  by (simp add: read_heroes_def select_Hero_def session_exec_all_def)

lemma read_heroes_truthy:
  "n \<noteq> [] \<Longrightarrow> a \<noteq> 0 \<Longrightarrow> int64 a \<Longrightarrow>
   read_heroes (Some n) (Some a) session =
     (Inr (map load_hero (filter (\<lambda>r. row_name r = n \<and> row_age r = Some a) (table session))),
      session)"
  by (simp add: read_heroes_def select_Hero_def where_clause_def session_exec_all_def)

text \<open>
  C1. A list request with \<^verbatim>\<open>age=0\<close> is answered as the same request without the age
  parameter: the truth test of \<^verbatim>\<open>if age:\<close> fails for 0, so no age condition is added.
  In particular, with no name filter, every stored record is returned, whatever its age.
\<close>

theorem read_heroes_age_zero_unfiltered:
  "read_heroes name (Some 0) session = read_heroes name None session
   \<and> read_heroes None (Some 0) session = (Inr (map load_hero (table session)), session)"
  by (simp add: read_heroes_def select_Hero_def session_exec_all_def)

text \<open>
  C10. A list request whose name parameter is the empty string is answered as the same
  request without the name parameter, whatever the age parameter: the truth test of
  \<^verbatim>\<open>if name:\<close> fails for the empty string, so no name condition is added. In
  particular, with no age filter, the record of every stored row is returned, whatever
  its name.
\<close>

theorem read_heroes_empty_name_unfiltered:
  "read_heroes (Some '''') age session = read_heroes None age session
   \<and> read_heroes (Some '''') None session = (Inr (map load_hero (table session)), session)"
  by (simp add: read_heroes_def select_Hero_def session_exec_all_def)

text \<open>
  C6. With both parameters present, the listing is meant to hold exactly the records
  with that name and that age. For \<^verbatim>\<open>name=Astra\<close> and \<^verbatim>\<open>age=0\<close> on a table
  whose only row is Astra, aged 30, the handler returns that row, whose age is not 0.
  (For a non-empty name and a non-zero age the two conditions do apply together:
  \<open>read_heroes_truthy\<close>.)
\<close>

theorem read_heroes_both_present_age_zero:
  "fst (read_heroes (Some ''Astra'') (Some 0)
     (get_session [\<lparr>row_id = 1, row_name = ''Astra'', row_age = Some 30\<rparr>])) =
   Inr [\<lparr>Hero_id = Some 1, Hero_name = ''Astra'', Hero_age = Some 30\<rparr>]"
  by (simp add: read_heroes_def select_Hero_def where_clause_def session_exec_all_def
      get_session_def load_hero_def)

subsection \<open>Creating and reading back\<close>




text \<open>
  C4. When \<open>create_hero\<close> returns a record, the record has an id, and \<open>read_hero\<close> with
  that id, on a session of the database as the creation left it, returns the same
  record: the same id, name and age.
\<close>

theorem read_hero_after_create_hero:
  assumes "create_hero hero (get_session db) = (Inr h, s)"
  shows "\<exists>i. Hero_id h = Some i
           \<and> read_hero i (get_session (table s)) = (Inr h, get_session (table s))"
proof -
  from assms obtain i where i: "int64 i" and fresh: "i \<notin> row_id ` set db"
    and h: "h = \<lparr>Hero_id = Some i, Hero_name = Hero_name hero, Hero_age = Hero_age hero\<rparr>"
    and s: "s = get_session (insort_key row_id
              \<lparr>row_id = i, row_name = Hero_name hero, row_age = Hero_age hero\<rparr> db)"
    by (rule create_hero_success)
  have "table s = insort_key row_id
              \<lparr>row_id = i, row_name = Hero_name hero, row_age = Hero_age hero\<rparr> db"
    using s by (simp add: get_session_def)
  with read_hero_inserted [OF i fresh, of "Hero_name hero" "Hero_age hero"] h
  have "read_hero i (get_session (table s)) = (Inr h, get_session (table s))"
    by simp
  with h show ?thesis by simp
qed

theorem read_hero_after_create_hero_witness:
  "create_hero \<lparr>Hero_id = None, Hero_name = ''Astra'', Hero_age = Some 30\<rparr> (get_session [])
     = (Inr \<lparr>Hero_id = Some 1, Hero_name = ''Astra'', Hero_age = Some 30\<rparr>,
        get_session [\<lparr>row_id = 1, row_name = ''Astra'', row_age = Some 30\<rparr>])
   \<and> read_hero 1 (get_session [\<lparr>row_id = 1, row_name = ''Astra'', row_age = Some 30\<rparr>])
     = (Inr \<lparr>Hero_id = Some 1, Hero_name = ''Astra'', Hero_age = Some 30\<rparr>,
        get_session [\<lparr>row_id = 1, row_name = ''Astra'', row_age = Some 30\<rparr>])"
proof -
  have c: "create_hero \<lparr>Hero_id = None, Hero_name = ''Astra'', Hero_age = Some 30\<rparr>
             (get_session [])
     = (Inr \<lparr>Hero_id = Some 1, Hero_name = ''Astra'', Hero_age = Some 30\<rparr>,
        get_session [\<lparr>row_id = 1, row_name = ''Astra'', row_age = Some 30\<rparr>])"
    by (simp add: create_hero_insert_row insert_row_def session_refresh_def load_hero_def
        next_rowid_def int64_opt_def int64_def max_rowid_def table_get_session Let_def)
  from read_hero_after_create_hero [OF c] c show ?thesis
    by (simp add: get_session_def)
qed

subsection \<open>Reading one record\<close>

text \<open>
  C3, as stated: for every integer \<open>hero_id\<close> the handler raises the 404 exception
  exactly when no stored record has that identifier. For the identifier
  9223372036854775808 no row has it, on any table; on the empty table the handler
  raises \<^verbatim>\<open>OverflowError\<close>, not the 404 exception.
\<close>

theorem read_hero_not_found_iff_counterexample:
  "read_hero 9223372036854775808 (get_session []) = (Inl OverflowError, get_session [])
   \<and> 9223372036854775808 \<notin> row_id ` set (table (get_session []))"
  by (simp add: read_hero_def session_get_def get_session_def int64_def max_rowid_def)

text \<open>
  C3, amended. \<open>read_hero\<close> raises the 404 exception with the detail
  \<^verbatim>\<open>Hero not found\<close> exactly when \<open>hero_id\<close> is a signed 64-bit value and no stored row
  has that key. When \<open>hero_id\<close> is a signed 64-bit value and a row with that key is
  stored, it returns the record of such a row. When \<open>hero_id\<close> is outside the signed
  64-bit range, it raises \<^verbatim>\<open>OverflowError\<close>. Whatever the outcome, it leaves the session,
  and with it the table, as it was.
\<close>

theorem read_hero_not_found_iff:
  "(fst (read_hero hero_id session) = Inl (HTTPException 404 ''Hero not found''))
      = (int64 hero_id \<and> hero_id \<notin> row_id ` set (table session))
   \<and> (int64 hero_id \<and> hero_id \<in> row_id ` set (table session) \<longrightarrow>
        (\<exists>r \<in> set (table session). row_id r = hero_id
            \<and> fst (read_hero hero_id session) = Inr (load_hero r)))
   \<and> (\<not> int64 hero_id \<longrightarrow> fst (read_hero hero_id session) = Inl OverflowError)
   \<and> snd (read_hero hero_id session) = session"
proof (cases "int64 hero_id")
  case False
  then show ?thesis
    by (simp add: read_hero_def session_get_def)
next
  case True
  show ?thesis
  proof (cases "find (\<lambda>r. row_id r = hero_id) (table session)")
    case None
    then have "hero_id \<notin> row_id ` set (table session)"
      by (auto simp: find_None_iff)
    with None True show ?thesis
      by (simp add: read_hero_def session_get_def)
  next
    case (Some r)
    then have "r \<in> set (table session)" and "row_id r = hero_id"
      by (auto simp: find_Some_iff in_set_conv_nth)
    with Some True show ?thesis
      by (auto simp: read_hero_def session_get_def)
  qed
qed

theorem read_hero_not_found_iff_witness:
  "fst (read_hero 2 (get_session [\<lparr>row_id = 1, row_name = ''Astra'', row_age = Some 30\<rparr>]))
     = Inl (HTTPException 404 ''Hero not found'')
   \<and> read_hero 1 (get_session [\<lparr>row_id = 1, row_name = ''Astra'', row_age = Some 30\<rparr>])
     = (Inr \<lparr>Hero_id = Some 1, Hero_name = ''Astra'', Hero_age = Some 30\<rparr>,
        get_session [\<lparr>row_id = 1, row_name = ''Astra'', row_age = Some 30\<rparr>])
   \<and> read_hero (- 9223372036854775809)
        (get_session [\<lparr>row_id = 1, row_name = ''Astra'', row_age = Some 30\<rparr>])
     = (Inl OverflowError,
        get_session [\<lparr>row_id = 1, row_name = ''Astra'', row_age = Some 30\<rparr>])"
  using read_hero_not_found_iff
          [of 2 "get_session [\<lparr>row_id = 1, row_name = ''Astra'', row_age = Some 30\<rparr>]"]
        read_hero_not_found_iff
          [of 1 "get_session [\<lparr>row_id = 1, row_name = ''Astra'', row_age = Some 30\<rparr>]"]
        read_hero_not_found_iff
          [of "- 9223372036854775809"
              "get_session [\<lparr>row_id = 1, row_name = ''Astra'', row_age = Some 30\<rparr>]"]
  by (simp add: get_session_def load_hero_def prod_eq_iff int64_def max_rowid_def)

subsection \<open>The id of a created record\<close>




subsection \<open>Listing without filters\<close>

text \<open>
  C7. Without a name and an age parameter \<open>read_heroes\<close> returns the record of every
  stored row and leaves the session as it was. After \<open>create_hero\<close> has returned a
  record, such a listing on the resulting database holds that record and the records
  of all rows stored before.
\<close>

theorem read_heroes_unfiltered:
  "read_heroes None None session = (Inr (map load_hero (table session)), session)
   \<and> (create_hero hero (get_session db) = (Inr h, s) \<longrightarrow>
        read_heroes None None (get_session (table s))
          = (Inr (map load_hero (table s)), get_session (table s))
        \<and> h \<in> set (map load_hero (table s))
        \<and> set db \<subseteq> set (table s))"
proof (intro conjI impI)
  show "read_heroes None None session = (Inr (map load_hero (table session)), session)"
    by (rule read_heroes_all)
next
  assume c: "create_hero hero (get_session db) = (Inr h, s)"
  show "read_heroes None None (get_session (table s))
          = (Inr (map load_hero (table s)), get_session (table s))"
    by (simp add: read_heroes_all table_get_session)
  from c obtain i
    where h: "h = \<lparr>Hero_id = Some i, Hero_name = Hero_name hero, Hero_age = Hero_age hero\<rparr>"
    and s: "s = get_session (insort_key row_id
              \<lparr>row_id = i, row_name = Hero_name hero, row_age = Hero_age hero\<rparr> db)"
    by (rule create_hero_success)
  from s have t: "table s = insort_key row_id
              \<lparr>row_id = i, row_name = Hero_name hero, row_age = Hero_age hero\<rparr> db"
    by (simp add: table_get_session)
  have "load_hero \<lparr>row_id = i, row_name = Hero_name hero, row_age = Hero_age hero\<rparr> = h"
    by (simp add: load_hero_def h)
  moreover have "\<lparr>row_id = i, row_name = Hero_name hero, row_age = Hero_age hero\<rparr>
                   \<in> set (table s)"
    by (simp add: t set_insort_key)
  ultimately show "h \<in> set (map load_hero (table s))"
    by force
  show "set db \<subseteq> set (table s)"
    by (auto simp: t set_insort_key)
qed

theorem read_heroes_unfiltered_witness:
  "create_hero \<lparr>Hero_id = None, Hero_name = ''Bolt'', Hero_age = None\<rparr>
          (get_session [\<lparr>row_id = 1, row_name = ''Astra'', row_age = Some 30\<rparr>])
     = (Inr \<lparr>Hero_id = Some 2, Hero_name = ''Bolt'', Hero_age = None\<rparr>,
        get_session [\<lparr>row_id = 1, row_name = ''Astra'', row_age = Some 30\<rparr>,
                     \<lparr>row_id = 2, row_name = ''Bolt'', row_age = None\<rparr>])
   \<and> fst (read_heroes None None
        (get_session [\<lparr>row_id = 1, row_name = ''Astra'', row_age = Some 30\<rparr>,
                      \<lparr>row_id = 2, row_name = ''Bolt'', row_age = None\<rparr>]))
     = Inr [\<lparr>Hero_id = Some 1, Hero_name = ''Astra'', Hero_age = Some 30\<rparr>,
            \<lparr>Hero_id = Some 2, Hero_name = ''Bolt'', Hero_age = None\<rparr>]"
proof -
  have c: "create_hero \<lparr>Hero_id = None, Hero_name = ''Bolt'', Hero_age = None\<rparr>
          (get_session [\<lparr>row_id = 1, row_name = ''Astra'', row_age = Some 30\<rparr>])
     = (Inr \<lparr>Hero_id = Some 2, Hero_name = ''Bolt'', Hero_age = None\<rparr>,
        get_session [\<lparr>row_id = 1, row_name = ''Astra'', row_age = Some 30\<rparr>,
                     \<lparr>row_id = 2, row_name = ''Bolt'', row_age = None\<rparr>])"
    by (simp add: create_hero_insert_row insert_row_def session_refresh_def load_hero_def
        next_rowid_def int64_opt_def int64_def max_rowid_def table_get_session Let_def)
  from read_heroes_unfiltered
         [of "get_session []" "\<lparr>Hero_id = None, Hero_name = ''Bolt'', Hero_age = None\<rparr>"
              "[\<lparr>row_id = 1, row_name = ''Astra'', row_age = Some 30\<rparr>]"
              "\<lparr>Hero_id = Some 2, Hero_name = ''Bolt'', Hero_age = None\<rparr>"
              "get_session [\<lparr>row_id = 1, row_name = ''Astra'', row_age = Some 30\<rparr>,
                     \<lparr>row_id = 2, row_name = ''Bolt'', row_age = None\<rparr>]"] c
  show ?thesis
    by (simp add: get_session_def load_hero_def)
qed

subsection \<open>Runs of create requests\<close>














end
